theory Spec2Isabelle
  imports Main "HOL-Library.Word"
begin

unbundle bit_operations_syntax

section \<open>Status words and HAL variant indices\<close>

text \<open>
  \<open>NV_STATUS\<close> as the generated file uses it: \<open>NV_OK\<close>, the two error codes the
  translation unit itself names or reaches through its stubs, and every other code a
  callee may hand back (\<open>NV_ERR_OTHER\<close>, tagged with its number).
\<close>

datatype NV_STATUS =
    NV_OK
  | NV_ERR_INVALID_ARGUMENT
  | NV_ERR_NOT_SUPPORTED
  | NV_ERR_OTHER nat

text \<open>
  The two locals \<open>rmVariantHal_HalVarIdx\<close> and \<open>chipHal_HalVarIdx\<close> are
  \<open>const unsigned long\<close>: 64-bit words. The halspec owner is kept as the pair of the
  two indices after the cast; a record scheme, so that an owner may carry any further
  state.
\<close>

type_synonym ulong = "64 word"

record RmHalspecOwner =
  rmVariantHal :: ulong
  chipHal :: ulong

text \<open>
  The three variant tests, written as the generator emits them:
  \<^verbatim>\<open>((idx >> 5) == W) && ((1UL << (idx & 0x1f)) & MASK)\<close>.
\<close>

definition RmVariantHal_VF :: "ulong \<Rightarrow> bool" where
  "RmVariantHal_VF idx \<longleftrightarrow>
     drop_bit 5 idx = 0 \<and> (push_bit (unat (idx AND 0x1f)) 1 AND 0x00000001) \<noteq> (0::ulong)"

definition RmVariantHal_PF_KERNEL_ONLY :: "ulong \<Rightarrow> bool" where
  "RmVariantHal_PF_KERNEL_ONLY idx \<longleftrightarrow>
     drop_bit 5 idx = 0 \<and> (push_bit (unat (idx AND 0x1f)) 1 AND 0x00000002) \<noteq> (0::ulong)"

definition ChipHal_GH100 :: "ulong \<Rightarrow> bool" where
  "ChipHal_GH100 idx \<longleftrightarrow>
     drop_bit 5 idx = 1 \<and> (push_bit (unat (idx AND 0x1f)) 1 AND 0x10000000) \<noteq> (0::ulong)"

section \<open>The ConfidentialCompute object\<close>

text \<open>
  A function pointer of the table is the address of \<open>confComputeOp_SUFFIX\<close>, where
  \<open>confComputeOp\<close> is fixed by the slot it is stored in. A slot therefore holds the
  suffix: a hand-written implementation (\<open>IMPL\<close>, \<open>KERNEL\<close>, \<open>GH100\<close>), a generated
  stub named by its digest, a \<open>__nvoc_thunk_\<close> function, or the null pointer of
  zeroed storage.
\<close>

datatype binding =
    NULLFN
  | IMPL
  | KERNEL
  | GH100
  | S_46f6a7
  | S_56cd7a
  | S_b3696a
  | S_491d52
  | S_cbe027
  | S_fa6e19
  | S_78ac8b
  | S_6c58cf
  | S_4a4dee
  | THUNK

datatype ptr = NULL | Ptr nat

text \<open>
  The fields the translation unit writes. \<open>__confComputeOp__\<close> is \<open>confComputeOp_fp\<close>
  (an Isabelle name cannot start with an underscore); the five overridden slots of the
  \<open>OBJENGSTATE\<close> base are \<open>engstateOp_fp\<close>; the properties keep their names.
\<close>

record ConfidentialCompute =
  nvoc_rtti :: bool
  createFlags :: "32 word"
  pParent :: ptr
  nvoc_pbase_ConfidentialCompute :: bool
  nvoc_pbase_Object :: bool
  nvoc_pbase_OBJENGSTATE :: bool
  engstateConstructEngine_fp :: binding
  engstateStatePreInitLocked_fp :: binding
  engstateStateInitLocked_fp :: binding
  engstateStatePostLoad_fp :: binding
  engstateStatePreUnload_fp :: binding
  confComputeConstructEngine_fp :: binding
  confComputeDestruct_fp :: binding
  confComputeStatePreInitLocked_fp :: binding
  confComputeStateInitLocked_fp :: binding
  confComputeStatePostLoad_fp :: binding
  confComputeStatePreUnload_fp :: binding
  confComputeSetErrorState_fp :: binding
  confComputeKeyStoreRetrieveViaChannel_fp :: binding
  confComputeKeyStoreRetrieveViaKeyId_fp :: binding
  confComputeDeriveSecretsForCEKeySpace_fp :: binding
  confComputeDeriveSecrets_fp :: binding
  confComputeUpdateSecrets_fp :: binding
  confComputeIsSpdmEnabled_fp :: binding
  confComputeGetEngineIdFromKeySpace_fp :: binding
  confComputeGetKeySpaceFromKChannel_fp :: binding
  confComputeGetLceKeyIdFromKChannel_fp :: binding
  confComputeGetMaxCeKeySpaceIdx_fp :: binding
  confComputeGlobalKeyIsKernelPriv_fp :: binding
  confComputeGlobalKeyIsUvmKey_fp :: binding
  confComputeGetKeyPairByChannel_fp :: binding
  confComputeTriggerKeyRotation_fp :: binding
  confComputeGetKeyPairForKeySpace_fp :: binding
  confComputeEnableKeyRotationCallback_fp :: binding
  confComputeEnableKeyRotationSupport_fp :: binding
  confComputeEnableInternalKeyRotationSupport_fp :: binding
  confComputeIsDebugModeEnabled_fp :: binding
  confComputeIsGpuCcCapable_fp :: binding
  confComputeEstablishSpdmSessionAndKeys_fp :: binding
  confComputeKeyStoreDepositIvMask_fp :: binding
  confComputeKeyStoreUpdateKey_fp :: binding
  confComputeKeyStoreIsValidGlobalKeyId_fp :: binding
  confComputeKeyStoreInit_fp :: binding
  confComputeKeyStoreDeinit_fp :: binding
  confComputeKeyStoreGetExportMasterKey_fp :: binding
  confComputeKeyStoreDeriveKey_fp :: binding
  confComputeKeyStoreClearExportMasterKey_fp :: binding
  confComputeStateLoad_fp :: binding
  confComputeStateUnload_fp :: binding
  confComputeStatePreLoad_fp :: binding
  confComputeStatePostUnload_fp :: binding
  confComputeStateDestroy_fp :: binding
  confComputeStateInitUnlocked_fp :: binding
  confComputeInitMissing_fp :: binding
  confComputeStatePreInitUnlocked_fp :: binding
  confComputeIsPresent_fp :: binding
  PDB_PROP_CONFCOMPUTE_IS_MISSING :: bool
  PDB_PROP_CONFCOMPUTE_ENABLED :: bool
  PDB_PROP_CONFCOMPUTE_CC_FEATURE_ENABLED :: bool
  PDB_PROP_CONFCOMPUTE_APM_FEATURE_ENABLED :: bool
  PDB_PROP_CONFCOMPUTE_DEVTOOLS_MODE_ENABLED :: bool
  PDB_PROP_CONFCOMPUTE_ENABLE_EARLY_INIT :: bool
  PDB_PROP_CONFCOMPUTE_GPUS_READY_CHECK_ENABLED :: bool
  PDB_PROP_CONFCOMPUTE_SPDM_ENABLED :: bool
  PDB_PROP_CONFCOMPUTE_MULTI_GPU_PROTECTED_PCIE_MODE_ENABLED :: bool
  PDB_PROP_CONFCOMPUTE_KEY_ROTATION_SUPPORTED :: bool
  PDB_PROP_CONFCOMPUTE_KEY_ROTATION_ENABLED :: bool
  PDB_PROP_CONFCOMPUTE_INTERNAL_KEY_ROTATION_ENABLED :: bool

text \<open>\<open>portMemSet(pThis, 0, sizeof(ConfidentialCompute))\<close>: every field zero.\<close>

definition zeroed :: ConfidentialCompute where
  "zeroed = \<lparr>
     nvoc_rtti = False, createFlags = 0, pParent = NULL,
     nvoc_pbase_ConfidentialCompute = False, nvoc_pbase_Object = False,
     nvoc_pbase_OBJENGSTATE = False,
     engstateConstructEngine_fp = NULLFN, engstateStatePreInitLocked_fp = NULLFN,
     engstateStateInitLocked_fp = NULLFN, engstateStatePostLoad_fp = NULLFN,
     engstateStatePreUnload_fp = NULLFN,
     confComputeConstructEngine_fp = NULLFN, confComputeDestruct_fp = NULLFN,
     confComputeStatePreInitLocked_fp = NULLFN, confComputeStateInitLocked_fp = NULLFN,
     confComputeStatePostLoad_fp = NULLFN, confComputeStatePreUnload_fp = NULLFN,
     confComputeSetErrorState_fp = NULLFN,
     confComputeKeyStoreRetrieveViaChannel_fp = NULLFN,
     confComputeKeyStoreRetrieveViaKeyId_fp = NULLFN,
     confComputeDeriveSecretsForCEKeySpace_fp = NULLFN,
     confComputeDeriveSecrets_fp = NULLFN, confComputeUpdateSecrets_fp = NULLFN,
     confComputeIsSpdmEnabled_fp = NULLFN, confComputeGetEngineIdFromKeySpace_fp = NULLFN,
     confComputeGetKeySpaceFromKChannel_fp = NULLFN,
     confComputeGetLceKeyIdFromKChannel_fp = NULLFN,
     confComputeGetMaxCeKeySpaceIdx_fp = NULLFN,
     confComputeGlobalKeyIsKernelPriv_fp = NULLFN, confComputeGlobalKeyIsUvmKey_fp = NULLFN,
     confComputeGetKeyPairByChannel_fp = NULLFN, confComputeTriggerKeyRotation_fp = NULLFN,
     confComputeGetKeyPairForKeySpace_fp = NULLFN,
     confComputeEnableKeyRotationCallback_fp = NULLFN,
     confComputeEnableKeyRotationSupport_fp = NULLFN,
     confComputeEnableInternalKeyRotationSupport_fp = NULLFN,
     confComputeIsDebugModeEnabled_fp = NULLFN, confComputeIsGpuCcCapable_fp = NULLFN,
     confComputeEstablishSpdmSessionAndKeys_fp = NULLFN,
     confComputeKeyStoreDepositIvMask_fp = NULLFN, confComputeKeyStoreUpdateKey_fp = NULLFN,
     confComputeKeyStoreIsValidGlobalKeyId_fp = NULLFN, confComputeKeyStoreInit_fp = NULLFN,
     confComputeKeyStoreDeinit_fp = NULLFN,
     confComputeKeyStoreGetExportMasterKey_fp = NULLFN,
     confComputeKeyStoreDeriveKey_fp = NULLFN,
     confComputeKeyStoreClearExportMasterKey_fp = NULLFN,
     confComputeStateLoad_fp = NULLFN, confComputeStateUnload_fp = NULLFN,
     confComputeStatePreLoad_fp = NULLFN, confComputeStatePostUnload_fp = NULLFN,
     confComputeStateDestroy_fp = NULLFN, confComputeStateInitUnlocked_fp = NULLFN,
     confComputeInitMissing_fp = NULLFN, confComputeStatePreInitUnlocked_fp = NULLFN,
     confComputeIsPresent_fp = NULLFN,
     PDB_PROP_CONFCOMPUTE_IS_MISSING = False,
     PDB_PROP_CONFCOMPUTE_ENABLED = False,
     PDB_PROP_CONFCOMPUTE_CC_FEATURE_ENABLED = False,
     PDB_PROP_CONFCOMPUTE_APM_FEATURE_ENABLED = False,
     PDB_PROP_CONFCOMPUTE_DEVTOOLS_MODE_ENABLED = False,
     PDB_PROP_CONFCOMPUTE_ENABLE_EARLY_INIT = False,
     PDB_PROP_CONFCOMPUTE_GPUS_READY_CHECK_ENABLED = False,
     PDB_PROP_CONFCOMPUTE_SPDM_ENABLED = False,
     PDB_PROP_CONFCOMPUTE_MULTI_GPU_PROTECTED_PCIE_MODE_ENABLED = False,
     PDB_PROP_CONFCOMPUTE_KEY_ROTATION_SUPPORTED = False,
     PDB_PROP_CONFCOMPUTE_KEY_ROTATION_ENABLED = False,
     PDB_PROP_CONFCOMPUTE_INTERNAL_KEY_ROTATION_ENABLED = False \<rparr>"

section \<open>Construction-time data fields\<close>

text \<open>
  \<open>__nvoc_init_dataField_ConfidentialCompute\<close>. \<open>pThis->setProperty(pThis, P, v)\<close>
  stores \<open>v\<close> in the field \<open>P\<close>; \<open>(NvBool)(0 == 0)\<close> is true, \<open>(NvBool)(0 != 0)\<close>
  false. The first property has no \<open>else\<close> branch: an index that is neither VF nor
  PF_KERNEL_ONLY leaves it as it was.
\<close>

definition nvoc_init_dataField_ConfidentialCompute ::
  "ConfidentialCompute \<Rightarrow> 'a RmHalspecOwner_scheme \<Rightarrow> ConfidentialCompute" where
  "nvoc_init_dataField_ConfidentialCompute pThis pRmhalspecowner =
    (let rmVariantHal_HalVarIdx = rmVariantHal pRmhalspecowner;
         p1 = (if RmVariantHal_VF rmVariantHal_HalVarIdx
               then pThis\<lparr>PDB_PROP_CONFCOMPUTE_IS_MISSING := (0::nat) = 0\<rparr>
               else if RmVariantHal_PF_KERNEL_ONLY rmVariantHal_HalVarIdx
               then pThis\<lparr>PDB_PROP_CONFCOMPUTE_IS_MISSING := (0::nat) \<noteq> 0\<rparr>
               else pThis)
     in p1\<lparr>
        PDB_PROP_CONFCOMPUTE_ENABLED := (0::nat) \<noteq> 0,
        PDB_PROP_CONFCOMPUTE_CC_FEATURE_ENABLED := (0::nat) \<noteq> 0,
        PDB_PROP_CONFCOMPUTE_APM_FEATURE_ENABLED := (0::nat) \<noteq> 0,
        PDB_PROP_CONFCOMPUTE_DEVTOOLS_MODE_ENABLED := (0::nat) \<noteq> 0,
        PDB_PROP_CONFCOMPUTE_ENABLE_EARLY_INIT := (0::nat) \<noteq> 0,
        PDB_PROP_CONFCOMPUTE_GPUS_READY_CHECK_ENABLED := (0::nat) = 0,
        PDB_PROP_CONFCOMPUTE_SPDM_ENABLED := (0::nat) \<noteq> 0,
        PDB_PROP_CONFCOMPUTE_MULTI_GPU_PROTECTED_PCIE_MODE_ENABLED := (0::nat) \<noteq> 0,
        PDB_PROP_CONFCOMPUTE_KEY_ROTATION_SUPPORTED := (0::nat) \<noteq> 0,
        PDB_PROP_CONFCOMPUTE_KEY_ROTATION_ENABLED := (0::nat) \<noteq> 0,
        PDB_PROP_CONFCOMPUTE_INTERNAL_KEY_ROTATION_ENABLED := (0::nat) \<noteq> 0\<rparr>)"

section \<open>The function table\<close>

text \<open>
  \<open>__nvoc_init_funcTable_ConfidentialCompute_1\<close>, slot by slot in source order. Every
  slot is assigned on every path.
\<close>

definition nvoc_init_funcTable_ConfidentialCompute_1 ::
  "ConfidentialCompute \<Rightarrow> 'a RmHalspecOwner_scheme \<Rightarrow> ConfidentialCompute" where
  "nvoc_init_funcTable_ConfidentialCompute_1 pThis pRmhalspecowner =
    (let rmVariantHal_HalVarIdx = rmVariantHal pRmhalspecowner;
         chipHal_HalVarIdx = chipHal pRmhalspecowner
     in pThis\<lparr>
        confComputeConstructEngine_fp := IMPL,
        confComputeDestruct_fp :=
          (if RmVariantHal_PF_KERNEL_ONLY rmVariantHal_HalVarIdx then KERNEL else S_b3696a),
        confComputeStatePreInitLocked_fp := S_56cd7a,
        confComputeStateInitLocked_fp := IMPL,
        confComputeStatePostLoad_fp :=
          (if RmVariantHal_PF_KERNEL_ONLY rmVariantHal_HalVarIdx then IMPL else S_56cd7a),
        confComputeStatePreUnload_fp :=
          (if RmVariantHal_PF_KERNEL_ONLY rmVariantHal_HalVarIdx then KERNEL else S_56cd7a),
        confComputeSetErrorState_fp :=
          (if RmVariantHal_PF_KERNEL_ONLY rmVariantHal_HalVarIdx then KERNEL else S_b3696a),
        confComputeKeyStoreRetrieveViaChannel_fp :=
          (if ChipHal_GH100 chipHal_HalVarIdx then GH100 else S_46f6a7),
        confComputeKeyStoreRetrieveViaKeyId_fp :=
          (if ChipHal_GH100 chipHal_HalVarIdx then GH100 else S_46f6a7),
        confComputeDeriveSecretsForCEKeySpace_fp :=
          (if ChipHal_GH100 chipHal_HalVarIdx then GH100 else S_46f6a7),
        confComputeDeriveSecrets_fp :=
          (if ChipHal_GH100 chipHal_HalVarIdx then GH100 else S_46f6a7),
        confComputeUpdateSecrets_fp :=
          (if ChipHal_GH100 chipHal_HalVarIdx then GH100 else S_46f6a7),
        confComputeIsSpdmEnabled_fp :=
          (if ChipHal_GH100 chipHal_HalVarIdx then S_cbe027 else S_491d52),
        confComputeGetEngineIdFromKeySpace_fp :=
          (if ChipHal_GH100 chipHal_HalVarIdx then GH100 else S_78ac8b),
        confComputeGetKeySpaceFromKChannel_fp :=
          (if ChipHal_GH100 chipHal_HalVarIdx then GH100 else S_46f6a7),
        confComputeGetLceKeyIdFromKChannel_fp :=
          (if ChipHal_GH100 chipHal_HalVarIdx then GH100 else S_46f6a7),
        confComputeGetMaxCeKeySpaceIdx_fp :=
          (if ChipHal_GH100 chipHal_HalVarIdx then S_6c58cf else S_4a4dee),
        confComputeGlobalKeyIsKernelPriv_fp :=
          (if ChipHal_GH100 chipHal_HalVarIdx then GH100 else S_491d52),
        confComputeGlobalKeyIsUvmKey_fp :=
          (if ChipHal_GH100 chipHal_HalVarIdx then GH100 else S_491d52),
        confComputeGetKeyPairByChannel_fp :=
          (if ChipHal_GH100 chipHal_HalVarIdx then GH100 else S_46f6a7),
        confComputeTriggerKeyRotation_fp :=
          (if RmVariantHal_VF rmVariantHal_HalVarIdx then S_46f6a7
           else if ChipHal_GH100 chipHal_HalVarIdx then GH100 else S_56cd7a),
        confComputeGetKeyPairForKeySpace_fp :=
          (if ChipHal_GH100 chipHal_HalVarIdx then GH100 else S_b3696a),
        confComputeEnableKeyRotationCallback_fp :=
          (if RmVariantHal_VF rmVariantHal_HalVarIdx then S_56cd7a
           else if ChipHal_GH100 chipHal_HalVarIdx then GH100 else S_56cd7a),
        confComputeEnableKeyRotationSupport_fp :=
          (if RmVariantHal_VF rmVariantHal_HalVarIdx then S_56cd7a
           else if ChipHal_GH100 chipHal_HalVarIdx then GH100 else S_56cd7a),
        confComputeEnableInternalKeyRotationSupport_fp :=
          (if RmVariantHal_VF rmVariantHal_HalVarIdx then S_56cd7a
           else if ChipHal_GH100 chipHal_HalVarIdx then GH100 else S_56cd7a),
        confComputeIsDebugModeEnabled_fp :=
          (if ChipHal_GH100 chipHal_HalVarIdx then GH100 else S_491d52),
        confComputeIsGpuCcCapable_fp :=
          (if ChipHal_GH100 chipHal_HalVarIdx then GH100 else S_491d52),
        confComputeEstablishSpdmSessionAndKeys_fp :=
          (if RmVariantHal_PF_KERNEL_ONLY rmVariantHal_HalVarIdx then KERNEL else S_46f6a7),
        confComputeKeyStoreDepositIvMask_fp :=
          (if ChipHal_GH100 chipHal_HalVarIdx then GH100 else S_b3696a),
        confComputeKeyStoreUpdateKey_fp :=
          (if ChipHal_GH100 chipHal_HalVarIdx then GH100 else S_46f6a7),
        confComputeKeyStoreIsValidGlobalKeyId_fp :=
          (if ChipHal_GH100 chipHal_HalVarIdx then GH100 else S_491d52),
        confComputeKeyStoreInit_fp :=
          (if ChipHal_GH100 chipHal_HalVarIdx then GH100 else S_46f6a7),
        confComputeKeyStoreDeinit_fp :=
          (if ChipHal_GH100 chipHal_HalVarIdx then GH100 else S_b3696a),
        confComputeKeyStoreGetExportMasterKey_fp :=
          (if ChipHal_GH100 chipHal_HalVarIdx then GH100 else S_fa6e19),
        confComputeKeyStoreDeriveKey_fp :=
          (if ChipHal_GH100 chipHal_HalVarIdx then GH100 else S_46f6a7),
        confComputeKeyStoreClearExportMasterKey_fp :=
          (if ChipHal_GH100 chipHal_HalVarIdx then GH100 else S_b3696a),
        engstateConstructEngine_fp := THUNK,
        engstateStatePreInitLocked_fp := THUNK,
        engstateStateInitLocked_fp := THUNK,
        engstateStatePostLoad_fp := THUNK,
        engstateStatePreUnload_fp := THUNK,
        confComputeStateLoad_fp := THUNK,
        confComputeStateUnload_fp := THUNK,
        confComputeStatePreLoad_fp := THUNK,
        confComputeStatePostUnload_fp := THUNK,
        confComputeStateDestroy_fp := THUNK,
        confComputeStateInitUnlocked_fp := THUNK,
        confComputeInitMissing_fp := THUNK,
        confComputeStatePreInitUnlocked_fp := THUNK,
        confComputeIsPresent_fp := THUNK\<rparr>)"

definition nvoc_init_funcTable_ConfidentialCompute ::
  "ConfidentialCompute \<Rightarrow> 'a RmHalspecOwner_scheme \<Rightarrow> ConfidentialCompute" where
  "nvoc_init_funcTable_ConfidentialCompute pThis pRmhalspecowner =
     nvoc_init_funcTable_ConfidentialCompute_1 pThis pRmhalspecowner"

text \<open>The table proper: the fifty pointer slots of an object, in source order.\<close>

definition funcTable :: "ConfidentialCompute \<Rightarrow> binding list" where
  "funcTable p =
    [confComputeConstructEngine_fp p, confComputeDestruct_fp p,
     confComputeStatePreInitLocked_fp p, confComputeStateInitLocked_fp p,
     confComputeStatePostLoad_fp p, confComputeStatePreUnload_fp p,
     confComputeSetErrorState_fp p, confComputeKeyStoreRetrieveViaChannel_fp p,
     confComputeKeyStoreRetrieveViaKeyId_fp p, confComputeDeriveSecretsForCEKeySpace_fp p,
     confComputeDeriveSecrets_fp p, confComputeUpdateSecrets_fp p,
     confComputeIsSpdmEnabled_fp p, confComputeGetEngineIdFromKeySpace_fp p,
     confComputeGetKeySpaceFromKChannel_fp p, confComputeGetLceKeyIdFromKChannel_fp p,
     confComputeGetMaxCeKeySpaceIdx_fp p, confComputeGlobalKeyIsKernelPriv_fp p,
     confComputeGlobalKeyIsUvmKey_fp p, confComputeGetKeyPairByChannel_fp p,
     confComputeTriggerKeyRotation_fp p, confComputeGetKeyPairForKeySpace_fp p,
     confComputeEnableKeyRotationCallback_fp p, confComputeEnableKeyRotationSupport_fp p,
     confComputeEnableInternalKeyRotationSupport_fp p, confComputeIsDebugModeEnabled_fp p,
     confComputeIsGpuCcCapable_fp p, confComputeEstablishSpdmSessionAndKeys_fp p,
     confComputeKeyStoreDepositIvMask_fp p, confComputeKeyStoreUpdateKey_fp p,
     confComputeKeyStoreIsValidGlobalKeyId_fp p, confComputeKeyStoreInit_fp p,
     confComputeKeyStoreDeinit_fp p, confComputeKeyStoreGetExportMasterKey_fp p,
     confComputeKeyStoreDeriveKey_fp p, confComputeKeyStoreClearExportMasterKey_fp p,
     engstateConstructEngine_fp p, engstateStatePreInitLocked_fp p,
     engstateStateInitLocked_fp p, engstateStatePostLoad_fp p,
     engstateStatePreUnload_fp p, confComputeStateLoad_fp p, confComputeStateUnload_fp p,
     confComputeStatePreLoad_fp p, confComputeStatePostUnload_fp p,
     confComputeStateDestroy_fp p, confComputeStateInitUnlocked_fp p,
     confComputeInitMissing_fp p, confComputeStatePreInitUnlocked_fp p,
     confComputeIsPresent_fp p]"

section \<open>Generated stubs and dispatch through the table\<close>

text \<open>
  Modelled from the spec: the bodies of the generated stubs \<open>confComputeOp_46f6a7\<close> and
  \<open>confComputeOp_56cd7a\<close>. They are emitted into \<open>g_conf_compute_nvoc.h\<close>, which is
  not among the sources; only their addresses are taken here. The spec
  has two stubs that return a status: the fail-fast stub ("variant stub reached", the
  outcome it calls \<open>UnsupportedOperation\<close> at a Key Store operation and
  \<open>RotationNotSupported\<close> at \<open>triggerKeyRotation\<close>), and the safe no-op default that
  succeeds ("rotation support defaults to disabled, not error"). The Key Store slots of
  a chip other than GH100 hold \<open>_46f6a7\<close> and the rotation-support slots hold
  \<open>_56cd7a\<close>, so \<open>_46f6a7\<close> is the fail-fast stub, with the status
  \<open>NV_ERR_NOT_SUPPORTED\<close>, and \<open>_56cd7a\<close> the no-op, with \<open>NV_OK\<close>. Neither reads its
  arguments nor writes any state. The two bodies are used below only at the slots
  where the spec states this outcome: the Key Store operations, \<open>triggerKeyRotation\<close>,
  \<open>enableKeyRotationSupport\<close> and \<open>statePreInitLocked\<close>. What the session bootstrap
  returns where its slot holds \<open>_46f6a7\<close> is left open: the sources do not hold that
  body, and the spec's words for it differ from its words for the Key Store stubs.
\<close>

definition stub_46f6a7 :: "'a \<Rightarrow> 's \<Rightarrow> NV_STATUS \<times> 's" where
  "stub_46f6a7 args s = (NV_ERR_NOT_SUPPORTED, s)"

definition stub_56cd7a :: "'a \<Rightarrow> 's \<Rightarrow> NV_STATUS \<times> 's" where
  "stub_56cd7a args s = (NV_OK, s)"

text \<open>
  A call through a slot of status type: the status and the state after it. \<open>None\<close>
  where the slot holds anything but one of the two stubs: that code (a hand-written
  implementation, a stub of another return type, a null pointer) is no part of this
  unit.
\<close>

definition nvoc_call :: "binding \<Rightarrow> 'a \<Rightarrow> 's \<Rightarrow> (NV_STATUS \<times> 's) option" where
  "nvoc_call fp args s =
     (case fp of
        S_46f6a7 \<Rightarrow> Some (stub_46f6a7 args s)
      | S_56cd7a \<Rightarrow> Some (stub_56cd7a args s)
      | _ \<Rightarrow> None)"


definition confComputeKeyStoreInit ::
  "ConfidentialCompute \<Rightarrow> 'a \<Rightarrow> 's \<Rightarrow> (NV_STATUS \<times> 's) option" where
  "confComputeKeyStoreInit pConfCompute args s =
     nvoc_call (confComputeKeyStoreInit_fp pConfCompute) args s"

definition confComputeKeyStoreDeriveKey ::
  "ConfidentialCompute \<Rightarrow> 'a \<Rightarrow> 's \<Rightarrow> (NV_STATUS \<times> 's) option" where
  "confComputeKeyStoreDeriveKey pConfCompute args s =
     nvoc_call (confComputeKeyStoreDeriveKey_fp pConfCompute) args s"

definition confComputeKeyStoreUpdateKey ::
  "ConfidentialCompute \<Rightarrow> 'a \<Rightarrow> 's \<Rightarrow> (NV_STATUS \<times> 's) option" where
  "confComputeKeyStoreUpdateKey pConfCompute args s =
     nvoc_call (confComputeKeyStoreUpdateKey_fp pConfCompute) args s"

definition confComputeKeyStoreRetrieveViaChannel ::
  "ConfidentialCompute \<Rightarrow> 'a \<Rightarrow> 's \<Rightarrow> (NV_STATUS \<times> 's) option" where
  "confComputeKeyStoreRetrieveViaChannel pConfCompute args s =
     nvoc_call (confComputeKeyStoreRetrieveViaChannel_fp pConfCompute) args s"

definition confComputeKeyStoreRetrieveViaKeyId ::
  "ConfidentialCompute \<Rightarrow> 'a \<Rightarrow> 's \<Rightarrow> (NV_STATUS \<times> 's) option" where
  "confComputeKeyStoreRetrieveViaKeyId pConfCompute args s =
     nvoc_call (confComputeKeyStoreRetrieveViaKeyId_fp pConfCompute) args s"

definition confComputeTriggerKeyRotation ::
  "ConfidentialCompute \<Rightarrow> 'a \<Rightarrow> 's \<Rightarrow> (NV_STATUS \<times> 's) option" where
  "confComputeTriggerKeyRotation pConfCompute args s =
     nvoc_call (confComputeTriggerKeyRotation_fp pConfCompute) args s"

definition confComputeEnableKeyRotationSupport ::
  "ConfidentialCompute \<Rightarrow> 'a \<Rightarrow> 's \<Rightarrow> (NV_STATUS \<times> 's) option" where
  "confComputeEnableKeyRotationSupport pConfCompute args s =
     nvoc_call (confComputeEnableKeyRotationSupport_fp pConfCompute) args s"


text \<open>
  \<open>enableKeyRotationSupport\<close> and then \<open>triggerKeyRotation\<close> on one object, the state
  threaded through; the status is the second call's.
\<close>

definition enable_then_trigger ::
  "ConfidentialCompute \<Rightarrow> 'a \<Rightarrow> 'b \<Rightarrow> 's \<Rightarrow> (NV_STATUS \<times> 's) option" where
  "enable_then_trigger pConfCompute args scope s =
     (case confComputeEnableKeyRotationSupport pConfCompute args s of
        None \<Rightarrow> None
      | Some (status, s') \<Rightarrow> confComputeTriggerKeyRotation pConfCompute scope s')"

section \<open>Object creation\<close>

text \<open>
  The store \<open>__nvoc_objCreate_ConfidentialCompute\<close> works on: the object storage by
  address, the blocks the allocator has handed out and not taken back, the child list of
  every parent object, and the caller's variable \<open>*ppThis\<close>.
\<close>

record world =
  mem :: "nat \<Rightarrow> ConfidentialCompute option"
  heap_blocks :: "nat set"
  children :: "nat \<Rightarrow> nat list"
  ppThis :: ptr

text \<open>
  What the callees that are not among the sources hand back, as parameters: the block
  \<open>portMemAllocNonPaged\<close> returns inside \<open>__nvoc_handleObjCreateMemAlloc\<close> (or none),
  the halspec owner that \<open>dynamicCast\<close> or \<open>objFindAncestorOfType\<close> finds from the
  parent (or none), and the status of \<open>__nvoc_ctor_OBJENGSTATE\<close>.
\<close>

record 'a callees =
  fresh_block :: "nat option"
  halspec_owner_of :: "nat \<Rightarrow> 'a RmHalspecOwner_scheme option"
  ctor_OBJENGSTATE_status :: NV_STATUS

text \<open>
  The two creation flags the function tests, two different bits of \<open>createFlags\<close>;
  their values are those of \<open>nvoc/runtime.h\<close>, which is not among the sources.
\<close>

definition NVOC_OBJ_CREATE_FLAGS_PARENT_HALSPEC_ONLY :: "32 word" where
  "NVOC_OBJ_CREATE_FLAGS_PARENT_HALSPEC_ONLY = 0x0001"

definition NVOC_OBJ_CREATE_FLAGS_IN_PLACE_CONSTRUCT :: "32 word" where
  "NVOC_OBJ_CREATE_FLAGS_IN_PLACE_CONSTRUCT = 0x0002"

text \<open>
  \<open>__nvoc_handleObjCreateMemAlloc\<close> ("Assign pThis, allocating memory unless suppressed
  by flag"): in place, \<open>pThis\<close> is the storage the caller passed in \<open>*ppThis\<close>;
  otherwise a new block, of unspecified content. Its two failure codes are not visible
  in the sources; \<open>NV_ERR_OTHER\<close> stands for them.
\<close>

definition nvoc_handleObjCreateMemAlloc ::
  "'a callees \<Rightarrow> 32 word \<Rightarrow> ConfidentialCompute \<Rightarrow> world \<Rightarrow> NV_STATUS \<times> nat \<times> world" where
  "nvoc_handleObjCreateMemAlloc env flags junk w =
     (if flags AND NVOC_OBJ_CREATE_FLAGS_IN_PLACE_CONSTRUCT \<noteq> 0 then
        (case ppThis w of
           NULL \<Rightarrow> (NV_ERR_OTHER 0, 0, w)
         | Ptr a \<Rightarrow> (NV_OK, a, w))
      else
        (case fresh_block env of
           None \<Rightarrow> (NV_ERR_OTHER 1, 0, w)
         | Some a \<Rightarrow>
             (NV_OK, a, w\<lparr>mem := (mem w)(a \<mapsto> junk), heap_blocks := insert a (heap_blocks w)\<rparr>)))"

definition store_obj :: "world \<Rightarrow> nat \<Rightarrow> ConfidentialCompute \<Rightarrow> world" where
  "store_obj w a obj = w\<lparr>mem := (mem w)(a \<mapsto> obj)\<rparr>"

definition load_obj :: "world \<Rightarrow> nat \<Rightarrow> ConfidentialCompute" where
  "load_obj w a = (case mem w a of Some obj \<Rightarrow> obj | None \<Rightarrow> zeroed)"

text \<open>
  \<open>objAddChild\<close> and \<open>objRemoveChild\<close> of the object framework, by what their names
  and the comments at their call sites say: the child enters or leaves the parent's
  child list, and its parent pointer follows. \<open>portMemFree\<close> takes the block back.
\<close>

definition objAddChild :: "world \<Rightarrow> nat \<Rightarrow> nat \<Rightarrow> world" where
  "objAddChild w par a =
     (store_obj w a ((load_obj w a)\<lparr>pParent := Ptr par\<rparr>))
       \<lparr>children := (children w)(par := a # children w par)\<rparr>"

definition objRemoveChild :: "world \<Rightarrow> nat \<Rightarrow> nat \<Rightarrow> world" where
  "objRemoveChild w par a =
     (store_obj w a ((load_obj w a)\<lparr>pParent := NULL\<rparr>))
       \<lparr>children := (children w)(par := removeAll a (children w par))\<rparr>"

definition portMemFree :: "world \<Rightarrow> nat \<Rightarrow> world" where
  "portMemFree w a = w\<lparr>mem := (mem w)(a := None), heap_blocks := heap_blocks w - {a}\<rparr>"

text \<open>
  \<open>__nvoc_init_ConfidentialCompute\<close>: the three base pointers, then the table.
  \<open>__nvoc_init_OBJENGSTATE\<close> works on base-class fields this record does not hold.
\<close>

definition nvoc_init_ConfidentialCompute ::
  "ConfidentialCompute \<Rightarrow> 'a RmHalspecOwner_scheme \<Rightarrow> ConfidentialCompute" where
  "nvoc_init_ConfidentialCompute pThis pRmhalspecowner =
     nvoc_init_funcTable_ConfidentialCompute
       (pThis\<lparr>nvoc_pbase_ConfidentialCompute := True, nvoc_pbase_Object := True,
              nvoc_pbase_OBJENGSTATE := True\<rparr>)
       pRmhalspecowner"

text \<open>
  \<open>__nvoc_ctor_ConfidentialCompute\<close>: the base constructor first; the data fields only
  when it succeeded.
\<close>

definition nvoc_ctor_ConfidentialCompute ::
  "NV_STATUS \<Rightarrow> ConfidentialCompute \<Rightarrow> 'a RmHalspecOwner_scheme \<Rightarrow> NV_STATUS \<times> ConfidentialCompute"
  where
  "nvoc_ctor_ConfidentialCompute base_status pThis pRmhalspecowner =
     (let status = base_status in
      if status \<noteq> NV_OK then (status, pThis)
      else (status, nvoc_init_dataField_ConfidentialCompute pThis pRmhalspecowner))"

text \<open>
  \<open>__nvoc_objCreate_ConfidentialCompute\<close>. \<open>NV_ASSERT_OR_RETURN(cond, ret)\<close> returns
  \<open>ret\<close> at once when \<open>cond\<close> fails; only a failing constructor reaches the cleanup
  label.
\<close>

definition nvoc_objCreate_ConfidentialCompute ::
  "'a callees \<Rightarrow> ConfidentialCompute \<Rightarrow> world \<Rightarrow> ptr \<Rightarrow> 32 word \<Rightarrow> NV_STATUS \<times> world" where
  "nvoc_objCreate_ConfidentialCompute env junk w0 pParent_arg flags =
     (case nvoc_handleObjCreateMemAlloc env flags junk w0 of
        (status, pThis, w1) \<Rightarrow>
          if status \<noteq> NV_OK then (status, w1)
          else
            let w2 = store_obj w1 pThis zeroed;
                w3 = store_obj w2 pThis ((load_obj w2 pThis)\<lparr>nvoc_rtti := True\<rparr>);
                w4 = store_obj w3 pThis ((load_obj w3 pThis)\<lparr>createFlags := flags\<rparr>)
            in
            (case pParent_arg of
               NULL \<Rightarrow> (NV_ERR_INVALID_ARGUMENT, w4)
             | Ptr par \<Rightarrow>
                 let linked = (flags AND NVOC_OBJ_CREATE_FLAGS_PARENT_HALSPEC_ONLY = 0);
                     w5 = (if linked then objAddChild w4 par pThis
                           else store_obj w4 pThis ((load_obj w4 pThis)\<lparr>pParent := NULL\<rparr>))
                 in
                 (case halspec_owner_of env par of
                    None \<Rightarrow> (NV_ERR_INVALID_ARGUMENT, w5)
                  | Some pRmhalspecowner \<Rightarrow>
                      let w6 = store_obj w5 pThis
                                 (nvoc_init_ConfidentialCompute (load_obj w5 pThis) pRmhalspecowner)
                      in
                      (case nvoc_ctor_ConfidentialCompute (ctor_OBJENGSTATE_status env)
                              (load_obj w6 pThis) pRmhalspecowner of
                         (status', obj) \<Rightarrow>
                           let w7 = store_obj w6 pThis obj in
                           if status' \<noteq> NV_OK then
                             let w8 = (if linked then objRemoveChild w7 par pThis else w7) in
                             if flags AND NVOC_OBJ_CREATE_FLAGS_IN_PLACE_CONSTRUCT \<noteq> 0
                             then (status', store_obj w8 pThis zeroed)
                             else (status', (portMemFree w8 pThis)\<lparr>ppThis := NULL\<rparr>)
                           else (NV_OK, w7\<lparr>ppThis := Ptr pThis\<rparr>)))))"

section \<open>Compressed PTE kinds on GB20B\<close>

text \<open>
  The \<open>NV_MMU_PTE_KIND_*\<close> values come from \<open>published/blackwell/gb20b/dev_mmu.h\<close>,
  which is not among the sources: they are a parameter of the function.
\<close>

record dev_mmu =
  NV_MMU_PTE_KIND_INVALID :: "32 word"
  NV_MMU_PTE_KIND_GENERIC_MEMORY :: "32 word"
  NV_MMU_PTE_KIND_GENERIC_MEMORY_COMPRESSIBLE :: "32 word"
  NV_MMU_PTE_KIND_GENERIC_MEMORY_COMPRESSIBLE_DISABLE_PLC :: "32 word"
  NV_MMU_PTE_KIND_S8 :: "32 word"
  NV_MMU_PTE_KIND_S8_COMPRESSIBLE_DISABLE_PLC :: "32 word"
  NV_MMU_PTE_KIND_Z16 :: "32 word"
  NV_MMU_PTE_KIND_Z16_COMPRESSIBLE_DISABLE_PLC :: "32 word"

text \<open>
  \<open>memmgrGetCompressedKind_GB20B\<close>. The switch as a chain of tests in label order
  (the labels of a C switch are pairwise different, so the order decides nothing);
  \<open>pMemoryManager\<close> is not read; the default case logs and returns the invalid kind.
\<close>

definition memmgrGetCompressedKind_GB20B :: "dev_mmu \<Rightarrow> 32 word \<Rightarrow> bool \<Rightarrow> 32 word" where
  "memmgrGetCompressedKind_GB20B K kind bDisablePlc =
     (if kind = NV_MMU_PTE_KIND_GENERIC_MEMORY K
         \<or> kind = NV_MMU_PTE_KIND_GENERIC_MEMORY_COMPRESSIBLE K
         \<or> kind = NV_MMU_PTE_KIND_GENERIC_MEMORY_COMPRESSIBLE_DISABLE_PLC K
      then (if bDisablePlc then NV_MMU_PTE_KIND_GENERIC_MEMORY_COMPRESSIBLE_DISABLE_PLC K
            else NV_MMU_PTE_KIND_GENERIC_MEMORY_COMPRESSIBLE K)
      else if kind = NV_MMU_PTE_KIND_S8 K
         \<or> kind = NV_MMU_PTE_KIND_S8_COMPRESSIBLE_DISABLE_PLC K
      then NV_MMU_PTE_KIND_S8_COMPRESSIBLE_DISABLE_PLC K
      else if kind = NV_MMU_PTE_KIND_Z16 K
         \<or> kind = NV_MMU_PTE_KIND_Z16_COMPRESSIBLE_DISABLE_PLC K
      then NV_MMU_PTE_KIND_Z16_COMPRESSIBLE_DISABLE_PLC K
      else NV_MMU_PTE_KIND_INVALID K)"

text \<open>The case labels of the switch, and the kinds a \<open>return\<close> other than the default's names.\<close>

definition case_labels :: "dev_mmu \<Rightarrow> 32 word list" where
  "case_labels K =
     [NV_MMU_PTE_KIND_GENERIC_MEMORY K,
      NV_MMU_PTE_KIND_GENERIC_MEMORY_COMPRESSIBLE K,
      NV_MMU_PTE_KIND_GENERIC_MEMORY_COMPRESSIBLE_DISABLE_PLC K,
      NV_MMU_PTE_KIND_S8 K,
      NV_MMU_PTE_KIND_S8_COMPRESSIBLE_DISABLE_PLC K,
      NV_MMU_PTE_KIND_Z16 K,
      NV_MMU_PTE_KIND_Z16_COMPRESSIBLE_DISABLE_PLC K]"

definition compressed_kinds :: "dev_mmu \<Rightarrow> 32 word list" where
  "compressed_kinds K =
     [NV_MMU_PTE_KIND_GENERIC_MEMORY_COMPRESSIBLE K,
      NV_MMU_PTE_KIND_GENERIC_MEMORY_COMPRESSIBLE_DISABLE_PLC K,
      NV_MMU_PTE_KIND_S8_COMPRESSIBLE_DISABLE_PLC K,
      NV_MMU_PTE_KIND_Z16_COMPRESSIBLE_DISABLE_PLC K]"

text \<open>
  One assignment of pairwise different values to the eight names: the numbering of the
  MMU manuals since Turing.
\<close>

definition gb20b_dev_mmu :: dev_mmu where
  "gb20b_dev_mmu = \<lparr>
     NV_MMU_PTE_KIND_INVALID = 0x07,
     NV_MMU_PTE_KIND_GENERIC_MEMORY = 0x06,
     NV_MMU_PTE_KIND_GENERIC_MEMORY_COMPRESSIBLE = 0x08,
     NV_MMU_PTE_KIND_GENERIC_MEMORY_COMPRESSIBLE_DISABLE_PLC = 0x09,
     NV_MMU_PTE_KIND_S8 = 0x02,
     NV_MMU_PTE_KIND_S8_COMPRESSIBLE_DISABLE_PLC = 0x0A,
     NV_MMU_PTE_KIND_Z16 = 0x01,
     NV_MMU_PTE_KIND_Z16_COMPRESSIBLE_DISABLE_PLC = 0x0B \<rparr>"

section \<open>Properties the claims speak of\<close>

text \<open>
  The rotation-policy invariant of the data model, read on the property flags: rotation
  is enabled only where it is supported.
\<close>

definition RotationPolicy_invariant :: "ConfidentialCompute \<Rightarrow> bool" where
  "RotationPolicy_invariant p \<longleftrightarrow>
     (PDB_PROP_CONFCOMPUTE_KEY_ROTATION_ENABLED p \<longrightarrow>
      PDB_PROP_CONFCOMPUTE_KEY_ROTATION_SUPPORTED p)"

text \<open>A store with no object, no block handed out and no child anywhere.\<close>

definition empty_world :: world where
  "empty_world = \<lparr>mem = (\<lambda>a. None), heap_blocks = {}, children = (\<lambda>a. []), ppThis = NULL\<rparr>"

text \<open>
  Callees for one run: the allocator hands out block 7, no object has a halspec owner
  among its ancestors, and the base constructor would succeed.
\<close>

definition no_owner_callees :: "unit callees" where
  "no_owner_callees =
     \<lparr>fresh_block = Some 7, halspec_owner_of = (\<lambda>a. None), ctor_OBJENGSTATE_status = NV_OK\<rparr>"

section \<open>Facts about the variant tests\<close>

lemma one_hot_test:
  "(push_bit k (1::ulong) AND push_bit m 1 \<noteq> 0) \<longleftrightarrow> k = m \<and> m < 64"
  by (auto simp: bit_eq_iff [where ?'a = "64 word"] bit_simps)

lemma split_idx: "(idx::ulong) = push_bit 5 (drop_bit 5 idx) + (idx AND 0x1f)"
proof -
  have "idx AND 0x1f = take_bit 5 idx"
    by (simp add: take_bit_eq_mask mask_eq_exp_minus_1)
  then show ?thesis
    by (simp add: bits_ident)
qed

lemma hal_test_dest:
  assumes hi: "drop_bit 5 (idx::ulong) = w"
    and bit: "push_bit (unat (idx AND 0x1f)) 1 AND push_bit m 1 \<noteq> (0::ulong)"
  shows "idx = push_bit 5 w + of_nat m"
proof -
  from bit have "unat (idx AND 0x1f) = m"
    using one_hot_test [of "unat (idx AND 0x1f)" m] by blast
  then have "idx AND 0x1f = of_nat m"
    by (metis of_nat_unat unsigned_word_eqI ucast_id)
  with hi show ?thesis
    using split_idx [of idx] by simp
qed

lemma RmVariantHal_VF_iff: "RmVariantHal_VF idx \<longleftrightarrow> idx = 0"
proof
  assume "RmVariantHal_VF idx"
  then show "idx = 0"
    using hal_test_dest [of idx 0 0] by (simp add: RmVariantHal_VF_def)
next
  assume "idx = 0"
  then show "RmVariantHal_VF idx"
    by (simp add: RmVariantHal_VF_def)
qed

lemma RmVariantHal_PF_KERNEL_ONLY_iff: "RmVariantHal_PF_KERNEL_ONLY idx \<longleftrightarrow> idx = 1"
proof
  assume "RmVariantHal_PF_KERNEL_ONLY idx"
  then show "idx = 1"
    using hal_test_dest [of idx 0 1] by (simp add: RmVariantHal_PF_KERNEL_ONLY_def)
next
  assume "idx = 1"
  then show "RmVariantHal_PF_KERNEL_ONLY idx"
    by (simp add: RmVariantHal_PF_KERNEL_ONLY_def)
qed

lemma ChipHal_GH100_iff: "ChipHal_GH100 idx \<longleftrightarrow> idx = 60"
proof
  assume "ChipHal_GH100 idx"
  then show "idx = 60"
    using hal_test_dest [of idx 1 28] by (simp add: ChipHal_GH100_def)
next
  assume "idx = 60"
  then show "ChipHal_GH100 idx"
    by (simp add: ChipHal_GH100_def)
qed

lemma VF_not_PF_KERNEL_ONLY: "RmVariantHal_VF idx \<Longrightarrow> \<not> RmVariantHal_PF_KERNEL_ONLY idx"
  by (simp add: RmVariantHal_VF_iff RmVariantHal_PF_KERNEL_ONLY_iff)

section \<open>Facts about the constructors and the stubs\<close>

lemma init_dataField_IS_MISSING:
  "PDB_PROP_CONFCOMPUTE_IS_MISSING (nvoc_init_dataField_ConfidentialCompute pThis own) =
     (if RmVariantHal_VF (rmVariantHal own) then True
      else if RmVariantHal_PF_KERNEL_ONLY (rmVariantHal own) then False
      else PDB_PROP_CONFCOMPUTE_IS_MISSING pThis)"
  by (simp add: nvoc_init_dataField_ConfidentialCompute_def Let_def)

lemma init_dataField_rotation:
  "PDB_PROP_CONFCOMPUTE_KEY_ROTATION_SUPPORTED
     (nvoc_init_dataField_ConfidentialCompute pThis own) = False"
  "PDB_PROP_CONFCOMPUTE_KEY_ROTATION_ENABLED
     (nvoc_init_dataField_ConfidentialCompute pThis own) = False"
  "PDB_PROP_CONFCOMPUTE_INTERNAL_KEY_ROTATION_ENABLED
     (nvoc_init_dataField_ConfidentialCompute pThis own) = False"
  by (simp_all add: nvoc_init_dataField_ConfidentialCompute_def Let_def)

lemma nvoc_call_stubs:
  "nvoc_call S_46f6a7 args s = Some (NV_ERR_NOT_SUPPORTED, s)"
  "nvoc_call S_56cd7a args s = Some (NV_OK, s)"
  by (simp_all add: nvoc_call_def stub_46f6a7_def stub_56cd7a_def)

lemma keystore_slots_off_GH100:
  assumes "\<not> ChipHal_GH100 (chipHal own)"
  shows "confComputeKeyStoreInit_fp
           (nvoc_init_funcTable_ConfidentialCompute_1 pThis own) = S_46f6a7"
    and "confComputeKeyStoreDeriveKey_fp
           (nvoc_init_funcTable_ConfidentialCompute_1 pThis own) = S_46f6a7"
    and "confComputeKeyStoreUpdateKey_fp
           (nvoc_init_funcTable_ConfidentialCompute_1 pThis own) = S_46f6a7"
    and "confComputeKeyStoreRetrieveViaChannel_fp
           (nvoc_init_funcTable_ConfidentialCompute_1 pThis own) = S_46f6a7"
    and "confComputeKeyStoreRetrieveViaKeyId_fp
           (nvoc_init_funcTable_ConfidentialCompute_1 pThis own) = S_46f6a7"
  using assms by (simp_all add: nvoc_init_funcTable_ConfidentialCompute_1_def Let_def)

lemma role_slots:
  "confComputeEstablishSpdmSessionAndKeys_fp
     (nvoc_init_funcTable_ConfidentialCompute_1 pThis own) =
       (if RmVariantHal_PF_KERNEL_ONLY (rmVariantHal own) then KERNEL else S_46f6a7)"
  "confComputeTriggerKeyRotation_fp
     (nvoc_init_funcTable_ConfidentialCompute_1 pThis own) =
       (if RmVariantHal_VF (rmVariantHal own) then S_46f6a7
        else if ChipHal_GH100 (chipHal own) then GH100 else S_56cd7a)"
  "confComputeEnableKeyRotationSupport_fp
     (nvoc_init_funcTable_ConfidentialCompute_1 pThis own) =
       (if RmVariantHal_VF (rmVariantHal own) then S_56cd7a
        else if ChipHal_GH100 (chipHal own) then GH100 else S_56cd7a)"
  "confComputeStatePreInitLocked_fp
     (nvoc_init_funcTable_ConfidentialCompute_1 pThis own) = S_56cd7a"
  "engstateStatePreInitLocked_fp
     (nvoc_init_funcTable_ConfidentialCompute_1 pThis own) = THUNK"
  by (simp_all add: nvoc_init_funcTable_ConfidentialCompute_1_def Let_def)

section \<open>Facts about the compressed kinds\<close>

lemma labels_cases:
  "kind \<in> set (case_labels K) \<longleftrightarrow>
     kind = NV_MMU_PTE_KIND_GENERIC_MEMORY K
   \<or> kind = NV_MMU_PTE_KIND_GENERIC_MEMORY_COMPRESSIBLE K
   \<or> kind = NV_MMU_PTE_KIND_GENERIC_MEMORY_COMPRESSIBLE_DISABLE_PLC K
   \<or> kind = NV_MMU_PTE_KIND_S8 K
   \<or> kind = NV_MMU_PTE_KIND_S8_COMPRESSIBLE_DISABLE_PLC K
   \<or> kind = NV_MMU_PTE_KIND_Z16 K
   \<or> kind = NV_MMU_PTE_KIND_Z16_COMPRESSIBLE_DISABLE_PLC K"
  by (simp add: case_labels_def)

lemma compressed_in_labels: "set (compressed_kinds K) \<subseteq> set (case_labels K)"
  by (simp add: compressed_kinds_def case_labels_def)

lemma recognised_result:
  "kind \<in> set (case_labels K) \<Longrightarrow>
     memmgrGetCompressedKind_GB20B K kind b \<in> set (compressed_kinds K)"
  by (auto simp: memmgrGetCompressedKind_GB20B_def compressed_kinds_def labels_cases)

lemma unrecognised_result:
  "kind \<notin> set (case_labels K) \<Longrightarrow>
     memmgrGetCompressedKind_GB20B K kind b = NV_MMU_PTE_KIND_INVALID K"
  by (simp add: memmgrGetCompressedKind_GB20B_def labels_cases)

lemma invalid_iff:
  assumes "NV_MMU_PTE_KIND_INVALID K \<notin> set (case_labels K)"
  shows "memmgrGetCompressedKind_GB20B K kind b = NV_MMU_PTE_KIND_INVALID K
           \<longleftrightarrow> kind \<notin> set (case_labels K)"
proof -
  have "NV_MMU_PTE_KIND_INVALID K \<notin> set (compressed_kinds K)"
    using assms compressed_in_labels by blast
  then show ?thesis
    using recognised_result [of kind K b] unrecognised_result [of kind K b] by metis
qed

lemma fixed_on_compressed:
  assumes "distinct (case_labels K)"
    and "memmgrGetCompressedKind_GB20B K kind b = r"
    and "kind \<in> set (case_labels K)"
  shows "memmgrGetCompressedKind_GB20B K r b = r"
  using assms
  by (auto simp: memmgrGetCompressedKind_GB20B_def case_labels_def split: if_splits)

lemma gb20b_distinct:
  "distinct (NV_MMU_PTE_KIND_INVALID gb20b_dev_mmu # case_labels gb20b_dev_mmu)"
  by (simp add: gb20b_dev_mmu_def case_labels_def)

lemma images:
  assumes "distinct (case_labels K)"
  shows "map (\<lambda>k. memmgrGetCompressedKind_GB20B K k False) (case_labels K) =
           [NV_MMU_PTE_KIND_GENERIC_MEMORY_COMPRESSIBLE K,
            NV_MMU_PTE_KIND_GENERIC_MEMORY_COMPRESSIBLE K,
            NV_MMU_PTE_KIND_GENERIC_MEMORY_COMPRESSIBLE K,
            NV_MMU_PTE_KIND_S8_COMPRESSIBLE_DISABLE_PLC K,
            NV_MMU_PTE_KIND_S8_COMPRESSIBLE_DISABLE_PLC K,
            NV_MMU_PTE_KIND_Z16_COMPRESSIBLE_DISABLE_PLC K,
            NV_MMU_PTE_KIND_Z16_COMPRESSIBLE_DISABLE_PLC K]" (is ?f)
    and "map (\<lambda>k. memmgrGetCompressedKind_GB20B K k True) (case_labels K) =
           [NV_MMU_PTE_KIND_GENERIC_MEMORY_COMPRESSIBLE_DISABLE_PLC K,
            NV_MMU_PTE_KIND_GENERIC_MEMORY_COMPRESSIBLE_DISABLE_PLC K,
            NV_MMU_PTE_KIND_GENERIC_MEMORY_COMPRESSIBLE_DISABLE_PLC K,
            NV_MMU_PTE_KIND_S8_COMPRESSIBLE_DISABLE_PLC K,
            NV_MMU_PTE_KIND_S8_COMPRESSIBLE_DISABLE_PLC K,
            NV_MMU_PTE_KIND_Z16_COMPRESSIBLE_DISABLE_PLC K,
            NV_MMU_PTE_KIND_Z16_COMPRESSIBLE_DISABLE_PLC K]" (is ?t)
proof -
  have "distinct (rev (case_labels K))"
    using assms by simp
  with assms show ?f ?t
    by (simp_all add: memmgrGetCompressedKind_GB20B_def case_labels_def)
qed

section \<open>Facts about object creation\<close>

text \<open>
  The path the cleanup label serves: when the constructor fails on a linked, allocated
  object, the child leaves the parent's list, the block is freed and \<open>*ppThis\<close> is
  null.
\<close>

lemma objCreate_ctor_failure_cleans_up:
  assumes "fresh_block env = Some a"
    and "halspec_owner_of env par = Some own"
    and "ctor_OBJENGSTATE_status env \<noteq> NV_OK"
  shows "case nvoc_objCreate_ConfidentialCompute env junk w (Ptr par) 0 of
           (status, w') \<Rightarrow>
              status = ctor_OBJENGSTATE_status env \<and> mem w' a = None
            \<and> a \<notin> heap_blocks w' \<and> a \<notin> set (children w' par) \<and> ppThis w' = NULL"
  using assms
  by (simp add: nvoc_objCreate_ConfidentialCompute_def nvoc_handleObjCreateMemAlloc_def
      nvoc_ctor_ConfidentialCompute_def NVOC_OBJ_CREATE_FLAGS_IN_PLACE_CONSTRUCT_def
      NVOC_OBJ_CREATE_FLAGS_PARENT_HALSPEC_ONLY_def Let_def store_obj_def
      objAddChild_def objRemoveChild_def portMemFree_def)

section \<open>The claims\<close>

text \<open>
  Claim C1. On every chip other than GH100, whatever the role and whatever the storage
  held before, the five Key Store operations \<open>keyStoreInit\<close>, \<open>keyStoreDeriveKey\<close>,
  \<open>keyStoreUpdateKey\<close>, \<open>keyStoreRetrieveViaChannel\<close> and \<open>keyStoreRetrieveViaKeyId\<close>,
  called through the table the constructor filled, return the variant stub's error
  (\<open>NV_ERR_NOT_SUPPORTED\<close>, the spec's \<open>UnsupportedOperation\<close>) for every argument and
  in every state, and leave the state as it was.
\<close>

theorem keystore_unsupported_off_GH100:
  assumes "\<not> ChipHal_GH100 (chipHal own)"
  shows "confComputeKeyStoreInit
           (nvoc_init_funcTable_ConfidentialCompute_1 pThis own) a1 s
           = Some (NV_ERR_NOT_SUPPORTED, s)
       \<and> confComputeKeyStoreDeriveKey
           (nvoc_init_funcTable_ConfidentialCompute_1 pThis own) a2 s
           = Some (NV_ERR_NOT_SUPPORTED, s)
       \<and> confComputeKeyStoreUpdateKey
           (nvoc_init_funcTable_ConfidentialCompute_1 pThis own) a3 s
           = Some (NV_ERR_NOT_SUPPORTED, s)
       \<and> confComputeKeyStoreRetrieveViaChannel
           (nvoc_init_funcTable_ConfidentialCompute_1 pThis own) a4 s
           = Some (NV_ERR_NOT_SUPPORTED, s)
       \<and> confComputeKeyStoreRetrieveViaKeyId
           (nvoc_init_funcTable_ConfidentialCompute_1 pThis own) a5 s
           = Some (NV_ERR_NOT_SUPPORTED, s)"
  using keystore_slots_off_GH100 [OF assms, of pThis]
  by (simp add: confComputeKeyStoreInit_def confComputeKeyStoreDeriveKey_def
      confComputeKeyStoreUpdateKey_def confComputeKeyStoreRetrieveViaChannel_def
      confComputeKeyStoreRetrieveViaKeyId_def nvoc_call_stubs)

theorem keystore_unsupported_off_GH100_witness:
  "confComputeKeyStoreInit
     (nvoc_init_funcTable_ConfidentialCompute_1 zeroed \<lparr>rmVariantHal = 1, chipHal = 59\<rparr>)
     (17::nat) ''state'' = Some (NV_ERR_NOT_SUPPORTED, ''state'')
   \<and> confComputeKeyStoreRetrieveViaKeyId
     (nvoc_init_funcTable_ConfidentialCompute_1 zeroed \<lparr>rmVariantHal = 1, chipHal = 59\<rparr>)
     (4::int) ''state'' = Some (NV_ERR_NOT_SUPPORTED, ''state'')"
  using keystore_unsupported_off_GH100
          [of "\<lparr>rmVariantHal = 1, chipHal = 59\<rparr>" zeroed "17::nat" "''state''" "()" "()" "()" "4::int"]
  by (simp add: ChipHal_GH100_iff)

text \<open>
  Claim C3. On the guest/VF role, on every chip (GH100 too), \<open>triggerKeyRotation\<close>
  called through the table the constructor filled fails with the stub's
  \<open>NV_ERR_NOT_SUPPORTED\<close> (the spec's \<open>RotationNotSupported\<close>) for every scope and in
  every state; and it still does when \<open>enableKeyRotationSupport\<close> has been called
  first, which on this role is the no-op stub.
\<close>

theorem trigger_rotation_on_VF_not_supported:
  assumes "RmVariantHal_VF (rmVariantHal own)"
  shows "confComputeTriggerKeyRotation
           (nvoc_init_funcTable_ConfidentialCompute_1 pThis own) scope s
           = Some (NV_ERR_NOT_SUPPORTED, s)
       \<and> enable_then_trigger
           (nvoc_init_funcTable_ConfidentialCompute_1 pThis own) args scope s
           = Some (NV_ERR_NOT_SUPPORTED, s)"
  using assms
  by (simp add: role_slots confComputeTriggerKeyRotation_def enable_then_trigger_def
      confComputeEnableKeyRotationSupport_def nvoc_call_stubs)

theorem trigger_rotation_on_VF_not_supported_witness:
  "enable_then_trigger
     (nvoc_init_funcTable_ConfidentialCompute_1 zeroed \<lparr>rmVariantHal = 0, chipHal = 60\<rparr>)
     () (3::nat) (0::int) = Some (NV_ERR_NOT_SUPPORTED, 0)
   \<and> confComputeTriggerKeyRotation
     (nvoc_init_funcTable_ConfidentialCompute_1 zeroed \<lparr>rmVariantHal = 0, chipHal = 60\<rparr>)
     (3::nat) (0::int) = Some (NV_ERR_NOT_SUPPORTED, 0)"
  using trigger_rotation_on_VF_not_supported
          [of "\<lparr>rmVariantHal = 0, chipHal = 60\<rparr>" zeroed "3::nat" "0::int" "()"]
  by (simp add: RmVariantHal_VF_iff)

text \<open>
  Claim C4, as stated, fails: not every operation without a dedicated implementation is
  bound to the fail-fast stub with only the three rotation-support operations excepted.
  On a host-kernel variant off GH100, \<open>triggerKeyRotation\<close> holds the no-op success
  stub \<open>_56cd7a\<close> that \<open>enableKeyRotationSupport\<close> holds, not the \<open>_46f6a7\<close> of
  \<open>keyStoreInit\<close>; on a guest so does the \<open>statePostLoad\<close> hook.
\<close>

theorem default_binding_counterexample:
  "\<not> ChipHal_GH100 0 \<and> \<not> RmVariantHal_VF 1 \<and> \<not> RmVariantHal_PF_KERNEL_ONLY 0
   \<and> confComputeTriggerKeyRotation_fp
        (nvoc_init_funcTable_ConfidentialCompute_1 zeroed \<lparr>rmVariantHal = 1, chipHal = 0\<rparr>)
        = S_56cd7a
   \<and> confComputeEnableKeyRotationSupport_fp
        (nvoc_init_funcTable_ConfidentialCompute_1 zeroed \<lparr>rmVariantHal = 1, chipHal = 0\<rparr>)
        = S_56cd7a
   \<and> confComputeKeyStoreInit_fp
        (nvoc_init_funcTable_ConfidentialCompute_1 zeroed \<lparr>rmVariantHal = 1, chipHal = 0\<rparr>)
        = S_46f6a7
   \<and> confComputeStatePostLoad_fp
        (nvoc_init_funcTable_ConfidentialCompute_1 zeroed \<lparr>rmVariantHal = 0, chipHal = 0\<rparr>)
        = S_56cd7a"
  by (simp add: nvoc_init_funcTable_ConfidentialCompute_1_def Let_def
      RmVariantHal_VF_iff RmVariantHal_PF_KERNEL_ONLY_iff ChipHal_GH100_iff)

text \<open>
  Claim C4, amended. Where an operation has no dedicated implementation for the
  variant, its slot holds a generated stub, by return type and operation:
  off GH100, the fail-fast stub \<open>_46f6a7\<close> for the eleven status-returning Key Store,
  secret-derivation and key-space operations, the constant-false stub \<open>_491d52\<close> for
  the six predicates, the void stub \<open>_b3696a\<close> for the four void Key Store
  operations, and a constant stub for the three value queries; off the host-kernel
  role, \<open>_46f6a7\<close> for the session bootstrap, the no-op success stub \<open>_56cd7a\<close> for
  the \<open>statePostLoad\<close> and \<open>statePreUnload\<close> hooks and \<open>_b3696a\<close> for \<open>destruct\<close> and
  \<open>setErrorState\<close>; the three rotation support/enable/callback operations hold
  \<open>_56cd7a\<close> on a guest and off GH100; \<open>triggerKeyRotation\<close> holds \<open>_46f6a7\<close> on a
  guest and \<open>_56cd7a\<close> on any other role off GH100.
\<close>

theorem default_bindings:
  assumes t: "t = nvoc_init_funcTable_ConfidentialCompute_1 pThis own"
  shows
   "(\<not> ChipHal_GH100 (chipHal own) \<longrightarrow>
        confComputeKeyStoreRetrieveViaChannel_fp t = S_46f6a7
      \<and> confComputeKeyStoreRetrieveViaKeyId_fp t = S_46f6a7
      \<and> confComputeDeriveSecretsForCEKeySpace_fp t = S_46f6a7
      \<and> confComputeDeriveSecrets_fp t = S_46f6a7
      \<and> confComputeUpdateSecrets_fp t = S_46f6a7
      \<and> confComputeGetKeySpaceFromKChannel_fp t = S_46f6a7
      \<and> confComputeGetLceKeyIdFromKChannel_fp t = S_46f6a7
      \<and> confComputeGetKeyPairByChannel_fp t = S_46f6a7
      \<and> confComputeKeyStoreUpdateKey_fp t = S_46f6a7
      \<and> confComputeKeyStoreInit_fp t = S_46f6a7
      \<and> confComputeKeyStoreDeriveKey_fp t = S_46f6a7
      \<and> confComputeIsSpdmEnabled_fp t = S_491d52
      \<and> confComputeGlobalKeyIsKernelPriv_fp t = S_491d52
      \<and> confComputeGlobalKeyIsUvmKey_fp t = S_491d52
      \<and> confComputeIsDebugModeEnabled_fp t = S_491d52
      \<and> confComputeIsGpuCcCapable_fp t = S_491d52
      \<and> confComputeKeyStoreIsValidGlobalKeyId_fp t = S_491d52
      \<and> confComputeGetKeyPairForKeySpace_fp t = S_b3696a
      \<and> confComputeKeyStoreDepositIvMask_fp t = S_b3696a
      \<and> confComputeKeyStoreDeinit_fp t = S_b3696a
      \<and> confComputeKeyStoreClearExportMasterKey_fp t = S_b3696a
      \<and> confComputeGetEngineIdFromKeySpace_fp t = S_78ac8b
      \<and> confComputeGetMaxCeKeySpaceIdx_fp t = S_4a4dee
      \<and> confComputeKeyStoreGetExportMasterKey_fp t = S_fa6e19)
  \<and> (\<not> RmVariantHal_PF_KERNEL_ONLY (rmVariantHal own) \<longrightarrow>
        confComputeEstablishSpdmSessionAndKeys_fp t = S_46f6a7
      \<and> confComputeStatePostLoad_fp t = S_56cd7a
      \<and> confComputeStatePreUnload_fp t = S_56cd7a
      \<and> confComputeDestruct_fp t = S_b3696a
      \<and> confComputeSetErrorState_fp t = S_b3696a)
  \<and> (RmVariantHal_VF (rmVariantHal own) \<or> \<not> ChipHal_GH100 (chipHal own) \<longrightarrow>
        confComputeEnableKeyRotationCallback_fp t = S_56cd7a
      \<and> confComputeEnableKeyRotationSupport_fp t = S_56cd7a
      \<and> confComputeEnableInternalKeyRotationSupport_fp t = S_56cd7a)
  \<and> (RmVariantHal_VF (rmVariantHal own) \<longrightarrow>
        confComputeTriggerKeyRotation_fp t = S_46f6a7)
  \<and> (\<not> RmVariantHal_VF (rmVariantHal own) \<and> \<not> ChipHal_GH100 (chipHal own) \<longrightarrow>
        confComputeTriggerKeyRotation_fp t = S_56cd7a)"
  unfolding t
  by (simp add: nvoc_init_funcTable_ConfidentialCompute_1_def Let_def)

theorem default_bindings_witness:
  "confComputeKeyStoreDeriveKey_fp
     (nvoc_init_funcTable_ConfidentialCompute_1 zeroed \<lparr>rmVariantHal = 0, chipHal = 2\<rparr>)
     = S_46f6a7
   \<and> confComputeIsGpuCcCapable_fp
     (nvoc_init_funcTable_ConfidentialCompute_1 zeroed \<lparr>rmVariantHal = 0, chipHal = 2\<rparr>)
     = S_491d52
   \<and> confComputeStatePreUnload_fp
     (nvoc_init_funcTable_ConfidentialCompute_1 zeroed \<lparr>rmVariantHal = 0, chipHal = 2\<rparr>)
     = S_56cd7a
   \<and> confComputeEnableKeyRotationCallback_fp
     (nvoc_init_funcTable_ConfidentialCompute_1 zeroed \<lparr>rmVariantHal = 0, chipHal = 2\<rparr>)
     = S_56cd7a
   \<and> confComputeTriggerKeyRotation_fp
     (nvoc_init_funcTable_ConfidentialCompute_1 zeroed \<lparr>rmVariantHal = 0, chipHal = 2\<rparr>)
     = S_46f6a7"
  using default_bindings
          [OF refl, where pThis = zeroed and own = "\<lparr>rmVariantHal = 0, chipHal = 2\<rparr>"]
  by (simp add: RmVariantHal_VF_iff RmVariantHal_PF_KERNEL_ONLY_iff ChipHal_GH100_iff)

text \<open>
  Claim C5. The table the constructor fills is a function of the two HAL variant
  indices and of nothing else: two constructions whose owners agree on the two
  indices yield the same pointer in every one of the fifty slots, whatever the storage
  held before and whatever else the owners carry.
\<close>

theorem funcTable_depends_on_variant_only:
  assumes "rmVariantHal o1 = rmVariantHal o2" and "chipHal o1 = chipHal o2"
  shows "funcTable (nvoc_init_funcTable_ConfidentialCompute_1 p1 o1)
       = funcTable (nvoc_init_funcTable_ConfidentialCompute_1 p2 o2)"
  using assms
  by (simp add: funcTable_def nvoc_init_funcTable_ConfidentialCompute_1_def Let_def)

theorem funcTable_depends_on_variant_only_witness:
  "funcTable (nvoc_init_funcTable_ConfidentialCompute_1 zeroed
      \<lparr>rmVariantHal = 1, chipHal = 60, \<dots> = (5::nat)\<rparr>)
   = funcTable (nvoc_init_funcTable_ConfidentialCompute_1
      (zeroed\<lparr>confComputeKeyStoreInit_fp := KERNEL, PDB_PROP_CONFCOMPUTE_ENABLED := True\<rparr>)
      \<lparr>rmVariantHal = 1, chipHal = 60, \<dots> = ''other state''\<rparr>)"
  using funcTable_depends_on_variant_only
    [of "\<lparr>rmVariantHal = 1, chipHal = 60, \<dots> = (5::nat)\<rparr>"
        "\<lparr>rmVariantHal = 1, chipHal = 60, \<dots> = ''other state''\<rparr>"
        zeroed
        "zeroed\<lparr>confComputeKeyStoreInit_fp := KERNEL, PDB_PROP_CONFCOMPUTE_ENABLED := True\<rparr>"]
  by simp

text \<open>
  Claim C6. At construction, for a variant whose role is guest/VF or host-kernel
  (PF_KERNEL_ONLY), the property \<open>PDB_PROP_CONFCOMPUTE_IS_MISSING\<close> is true exactly
  when the role is guest/VF, hence false on the host-kernel role: after the data-field
  initialiser, and after the constructor when the base constructor succeeded.
\<close>

theorem is_missing_iff_VF:
  assumes "RmVariantHal_VF (rmVariantHal own) \<or> RmVariantHal_PF_KERNEL_ONLY (rmVariantHal own)"
  shows "(PDB_PROP_CONFCOMPUTE_IS_MISSING (nvoc_init_dataField_ConfidentialCompute pThis own)
            \<longleftrightarrow> RmVariantHal_VF (rmVariantHal own))
       \<and> (PDB_PROP_CONFCOMPUTE_IS_MISSING (snd (nvoc_ctor_ConfidentialCompute NV_OK pThis own))
            \<longleftrightarrow> RmVariantHal_VF (rmVariantHal own))"
  using assms VF_not_PF_KERNEL_ONLY [of "rmVariantHal own"]
  by (auto simp: init_dataField_IS_MISSING nvoc_ctor_ConfidentialCompute_def Let_def)

theorem is_missing_iff_VF_witness:
  "PDB_PROP_CONFCOMPUTE_IS_MISSING
     (nvoc_init_dataField_ConfidentialCompute zeroed \<lparr>rmVariantHal = 0, chipHal = 60\<rparr>)
   \<and> \<not> PDB_PROP_CONFCOMPUTE_IS_MISSING
     (nvoc_init_dataField_ConfidentialCompute
        (zeroed\<lparr>PDB_PROP_CONFCOMPUTE_IS_MISSING := True\<rparr>) \<lparr>rmVariantHal = 1, chipHal = 60\<rparr>)"
  using is_missing_iff_VF [of "\<lparr>rmVariantHal = 0, chipHal = 60\<rparr>" zeroed]
        is_missing_iff_VF [of "\<lparr>rmVariantHal = 1, chipHal = 60\<rparr>"
                              "zeroed\<lparr>PDB_PROP_CONFCOMPUTE_IS_MISSING := True\<rparr>"]
  by (simp add: RmVariantHal_VF_iff RmVariantHal_PF_KERNEL_ONLY_iff)

text \<open>
  Claim C7. For every device variant and whatever the storage held before, the
  data-field initialiser leaves \<open>KEY_ROTATION_SUPPORTED\<close>, \<open>KEY_ROTATION_ENABLED\<close> and
  \<open>INTERNAL_KEY_ROTATION_ENABLED\<close> all false, so the rotation-policy invariant
  "enabled implies supported" holds in the construction-time state.
\<close>

theorem rotation_flags_false_at_construction:
  "\<not> PDB_PROP_CONFCOMPUTE_KEY_ROTATION_SUPPORTED
        (nvoc_init_dataField_ConfidentialCompute pThis own)
   \<and> \<not> PDB_PROP_CONFCOMPUTE_KEY_ROTATION_ENABLED
        (nvoc_init_dataField_ConfidentialCompute pThis own)
   \<and> \<not> PDB_PROP_CONFCOMPUTE_INTERNAL_KEY_ROTATION_ENABLED
        (nvoc_init_dataField_ConfidentialCompute pThis own)
   \<and> RotationPolicy_invariant (nvoc_init_dataField_ConfidentialCompute pThis own)"
  by (simp add: RotationPolicy_invariant_def init_dataField_rotation)

theorem rotation_flags_false_at_construction_witness:
  "\<not> PDB_PROP_CONFCOMPUTE_KEY_ROTATION_ENABLED
        (nvoc_init_dataField_ConfidentialCompute
           (zeroed\<lparr>PDB_PROP_CONFCOMPUTE_KEY_ROTATION_ENABLED := True\<rparr>)
           \<lparr>rmVariantHal = 1, chipHal = 60\<rparr>)
   \<and> RotationPolicy_invariant
        (nvoc_init_dataField_ConfidentialCompute
           (zeroed\<lparr>PDB_PROP_CONFCOMPUTE_KEY_ROTATION_ENABLED := True\<rparr>)
           \<lparr>rmVariantHal = 1, chipHal = 60\<rparr>)"
  using rotation_flags_false_at_construction
    [of "zeroed\<lparr>PDB_PROP_CONFCOMPUTE_KEY_ROTATION_ENABLED := True\<rparr>"
        "\<lparr>rmVariantHal = 1, chipHal = 60\<rparr>"]
  by simp

text \<open>
  Claim C8 at its failing inputs. With no flag set, a parent (object 3) that has no
  halspec owner, and a successful allocation of block 7: the call returns
  \<open>NV_ERR_INVALID_ARGUMENT\<close> through the second \<open>NV_ASSERT_OR_RETURN\<close>, past the
  cleanup label, so block 7 is still allocated, still in the parent's child list, not
  zero, and \<open>*ppThis\<close> is as it was. With a null parent the first
  \<open>NV_ASSERT_OR_RETURN\<close> leaves the block allocated in the same way.
\<close>

theorem objCreate_assert_paths_skip_cleanup:
  "(case nvoc_objCreate_ConfidentialCompute no_owner_callees zeroed empty_world (Ptr 3) 0 of
      (status, w) \<Rightarrow>
         status = NV_ERR_INVALID_ARGUMENT \<and> heap_blocks w = {7} \<and> children w 3 = [7]
       \<and> mem w 7 \<noteq> None \<and> mem w 7 \<noteq> Some zeroed \<and> ppThis w = NULL)
   \<and> (case nvoc_objCreate_ConfidentialCompute no_owner_callees zeroed empty_world NULL 0 of
      (status, w) \<Rightarrow>
         status = NV_ERR_INVALID_ARGUMENT \<and> heap_blocks w = {7}
       \<and> mem w 7 \<noteq> None \<and> mem w 7 \<noteq> Some zeroed \<and> ppThis w = NULL)"
proof -
  have neq: "zeroed\<lparr>nvoc_rtti := True\<rparr> \<noteq> zeroed"
    by (simp add: zeroed_def)
  have a: "nvoc_objCreate_ConfidentialCompute no_owner_callees zeroed empty_world (Ptr 3) 0 =
      (NV_ERR_INVALID_ARGUMENT,
       \<lparr>mem = (\<lambda>a. None)(7 \<mapsto> zeroed\<lparr>nvoc_rtti := True, pParent := Ptr 3\<rparr>),
        heap_blocks = {7}, children = (\<lambda>a. [])(3 := [7]), ppThis = NULL\<rparr>)"
    by (simp add: nvoc_objCreate_ConfidentialCompute_def nvoc_handleObjCreateMemAlloc_def
        no_owner_callees_def empty_world_def NVOC_OBJ_CREATE_FLAGS_IN_PLACE_CONSTRUCT_def
        NVOC_OBJ_CREATE_FLAGS_PARENT_HALSPEC_ONLY_def Let_def store_obj_def load_obj_def
        objAddChild_def)
       (simp add: zeroed_def)
  have b: "nvoc_objCreate_ConfidentialCompute no_owner_callees zeroed empty_world NULL 0 =
      (NV_ERR_INVALID_ARGUMENT,
       \<lparr>mem = (\<lambda>a. None)(7 \<mapsto> zeroed\<lparr>nvoc_rtti := True\<rparr>),
        heap_blocks = {7}, children = (\<lambda>a. []), ppThis = NULL\<rparr>)"
    by (simp add: nvoc_objCreate_ConfidentialCompute_def nvoc_handleObjCreateMemAlloc_def
        no_owner_callees_def empty_world_def NVOC_OBJ_CREATE_FLAGS_IN_PLACE_CONSTRUCT_def
        NVOC_OBJ_CREATE_FLAGS_PARENT_HALSPEC_ONLY_def Let_def store_obj_def load_obj_def)
       (simp add: zeroed_def)
  have neq': "zeroed\<lparr>nvoc_rtti := True, pParent := Ptr 3\<rparr> \<noteq> zeroed"
    by (simp add: zeroed_def)
  show ?thesis
    using neq neq' by (simp add: a b)
qed



text \<open>
  Claim C10, as stated, fails in its count: the switch has seven case labels, so seven
  input kinds are recognised, not nine. With the eight names numbered as in the MMU
  manuals, the kinds that do not map to the invalid kind are seven.
\<close>

theorem recognised_kinds_counterexample:
  "card {kind. memmgrGetCompressedKind_GB20B gb20b_dev_mmu kind False
                 \<noteq> NV_MMU_PTE_KIND_INVALID gb20b_dev_mmu} = 7
   \<and> card {kind. memmgrGetCompressedKind_GB20B gb20b_dev_mmu kind False
                 \<noteq> NV_MMU_PTE_KIND_INVALID gb20b_dev_mmu} \<noteq> 9"
proof -
  have inv: "NV_MMU_PTE_KIND_INVALID gb20b_dev_mmu \<notin> set (case_labels gb20b_dev_mmu)"
    using gb20b_distinct by simp
  have "{kind. memmgrGetCompressedKind_GB20B gb20b_dev_mmu kind False
                 \<noteq> NV_MMU_PTE_KIND_INVALID gb20b_dev_mmu}
      = set (case_labels gb20b_dev_mmu)"
    using invalid_iff [OF inv, of _ False] by blast
  moreover have "card (set (case_labels gb20b_dev_mmu)) = 7"
    using gb20b_distinct by (simp add: distinct_card case_labels_def)
  ultimately show ?thesis by simp
qed

text \<open>
  Claim C10, amended. Whenever the eight kind names have pairwise different values,
  \<open>memmgrGetCompressedKind_GB20B\<close> is a total function of the 32-bit kind and the
  flag which returns one of exactly four compressible kinds (generic memory
  compressible with or without PLC, S8 and Z16 compressible with PLC disabled) for the
  seven recognised input kinds and \<open>NV_MMU_PTE_KIND_INVALID\<close> for every other input,
  and applying it twice with the same flag gives what applying it once gives.
\<close>

theorem memmgrGetCompressedKind_GB20B_kinds:
  assumes d: "distinct (NV_MMU_PTE_KIND_INVALID K # case_labels K)"
  shows "(memmgrGetCompressedKind_GB20B K kind b \<in> set (compressed_kinds K)
            \<longleftrightarrow> kind \<in> set (case_labels K))
       \<and> (memmgrGetCompressedKind_GB20B K kind b = NV_MMU_PTE_KIND_INVALID K
            \<longleftrightarrow> kind \<notin> set (case_labels K))
       \<and> memmgrGetCompressedKind_GB20B K (memmgrGetCompressedKind_GB20B K kind b) b
            = memmgrGetCompressedKind_GB20B K kind b
       \<and> card (set (case_labels K)) = 7
       \<and> card (set (compressed_kinds K)) = 4
       \<and> set (compressed_kinds K)
            = set (map (\<lambda>k. memmgrGetCompressedKind_GB20B K k False) (case_labels K))
            \<union> set (map (\<lambda>k. memmgrGetCompressedKind_GB20B K k True) (case_labels K))"
proof -
  from d have inv: "NV_MMU_PTE_KIND_INVALID K \<notin> set (case_labels K)"
    and dl: "distinct (case_labels K)"
    by simp_all
  have inv': "NV_MMU_PTE_KIND_INVALID K \<notin> set (compressed_kinds K)"
    using inv compressed_in_labels by blast
  have a: "memmgrGetCompressedKind_GB20B K kind b \<in> set (compressed_kinds K)
             \<longleftrightarrow> kind \<in> set (case_labels K)"
    using recognised_result [of kind K b] unrecognised_result [of kind K b] inv' by metis
  have b: "memmgrGetCompressedKind_GB20B K kind b = NV_MMU_PTE_KIND_INVALID K
             \<longleftrightarrow> kind \<notin> set (case_labels K)"
    by (rule invalid_iff [OF inv])
  have c: "memmgrGetCompressedKind_GB20B K (memmgrGetCompressedKind_GB20B K kind b) b
             = memmgrGetCompressedKind_GB20B K kind b"
  proof (cases "kind \<in> set (case_labels K)")
    case True
    then show ?thesis using fixed_on_compressed [OF dl refl] by blast
  next
    case False
    then have "memmgrGetCompressedKind_GB20B K kind b = NV_MMU_PTE_KIND_INVALID K"
      by (rule unrecognised_result)
    then show ?thesis using unrecognised_result [OF inv] by simp
  qed
  have e: "card (set (case_labels K)) = 7"
    using dl by (simp add: distinct_card case_labels_def)
  have dc: "distinct (compressed_kinds K)"
    using dl by (simp add: case_labels_def compressed_kinds_def)
  have f: "card (set (compressed_kinds K)) = 4"
    using dc by (simp add: distinct_card compressed_kinds_def)
  have g: "set (compressed_kinds K)
             = set (map (\<lambda>k. memmgrGetCompressedKind_GB20B K k False) (case_labels K))
             \<union> set (map (\<lambda>k. memmgrGetCompressedKind_GB20B K k True) (case_labels K))"
    unfolding images [OF dl] by (auto simp: compressed_kinds_def)
  from a b c e f g show ?thesis by blast
qed

theorem memmgrGetCompressedKind_GB20B_kinds_witness:
  "memmgrGetCompressedKind_GB20B gb20b_dev_mmu
     (memmgrGetCompressedKind_GB20B gb20b_dev_mmu 0x02 True) True
     = memmgrGetCompressedKind_GB20B gb20b_dev_mmu 0x02 True
   \<and> memmgrGetCompressedKind_GB20B gb20b_dev_mmu
     (memmgrGetCompressedKind_GB20B gb20b_dev_mmu 0x33 False) False
     = memmgrGetCompressedKind_GB20B gb20b_dev_mmu 0x33 False
   \<and> card (set (case_labels gb20b_dev_mmu)) = 7"
  using memmgrGetCompressedKind_GB20B_kinds [OF gb20b_distinct, of "0x02" True]
        memmgrGetCompressedKind_GB20B_kinds [OF gb20b_distinct, of "0x33" False]
  by simp

end
